theory Spec2Isabelle
  imports Main
begin

section \<open>Values that travel through the queues\<close>

text \<open>
  A Python exception object: whether its class derives from \<^verbatim>\<open>Exception\<close> (and not only
  from \<^verbatim>\<open>BaseException\<close>), its text, and its \<^verbatim>\<open>__cause__\<close> when one was attached.
  \<^verbatim>\<open>except Exception\<close> and \<^verbatim>\<open>isinstance(x, Exception)\<close> look at the first component.
\<close>

datatype exn = Exn (is_Exception: bool) (exn_text: string) (exn_cause: "string option")

definition AssertionError :: exn where
  "AssertionError = Exn True ''AssertionError'' None"

definition AttributeError :: exn where
  "AttributeError = Exn True ''AttributeError'' None"

text \<open>
  The objects the program puts on its queues. \<^verbatim>\<open>TracedError(base, trace)\<close> is its own
  constructor: the class derives from \<^verbatim>\<open>BaseException\<close>, so it is not an instance of
  \<^verbatim>\<open>Exception\<close>. A \<^verbatim>\<open>Message\<close> carries the method name, the positional and the keyword
  arguments.
\<close>

datatype pyval =
    PNone
  | PInt int
  | PStr string
  | PList "pyval list"
  | PExc exn
  | TracedError exn string
  | Message string "pyval list" "(string \<times> pyval) list"

text \<open>\<^verbatim>\<open>Message.CANCEL = "__cancel__"\<close> and \<^verbatim>\<open>Message.END = "__end__"\<close> are plain strings.\<close>

definition CANCEL :: pyval where
  "CANCEL = PStr ''__cancel__''"

definition END :: pyval where
  "END = PStr ''__end__''"

section \<open>Future\<close>

text \<open>
  The fields of \<^verbatim>\<open>Future\<close>. The three callback sets hold callback identities, kept in the
  order of registration without duplicates. \<open>f_cancelled\<close> is the attribute \<^verbatim>\<open>cancelled\<close>
  that \<^verbatim>\<open>__init__\<close> sets to False; \<open>f_ucancelled\<close> is the attribute \<^verbatim>\<open>_cancelled\<close>, which
  exists only once \<^verbatim>\<open>cancel()\<close> has written it. \<open>f_calls\<close> is the trace of callback
  invocations, the only effect of a callback that the model observes.
\<close>

datatype cbcall = ResponseCall nat pyval | DoneCall nat

record future =
  f_response_callbacks :: "nat list"
  f_exception_callbacks :: "nat list"
  f_done_callbacks :: "nat list"
  f_responses :: "pyval list"
  f_exception :: "exn option"
  f_done :: bool
  f_cancelled :: bool
  f_ucancelled :: bool
  f_calls :: "cbcall list"

definition Future :: future where
  "Future = \<lparr> f_response_callbacks = [], f_exception_callbacks = [], f_done_callbacks = [],
     f_responses = [], f_exception = None, f_done = False, f_cancelled = False,
     f_ucancelled = False, f_calls = [] \<rparr>"

text \<open>
  Every method returns the exception it raised, if any, and the Future as it is then.
\<close>

definition add_response :: "pyval \<Rightarrow> future \<Rightarrow> exn option \<times> future" where
  "add_response response f =
     (None, f\<lparr> f_responses := f_responses f @ [response],
               f_calls := f_calls f @ map (\<lambda>cb. ResponseCall cb response) (f_response_callbacks f) \<rparr>)"

definition set_exception :: "exn \<Rightarrow> future \<Rightarrow> exn option \<times> future" where
  "set_exception e f = (None, f\<lparr> f_exception := Some e \<rparr>)"

definition set_done :: "future \<Rightarrow> exn option \<times> future" where
  "set_done f =
     (if f_done f then (Some AssertionError, f)
      else (None, f\<lparr> f_done := True,
                      f_calls := f_calls f @ map DoneCall (f_done_callbacks f) \<rparr>))"

definition cancel :: "future \<Rightarrow> exn option \<times> future" where
  "cancel f = set_done (f\<lparr> f_ucancelled := True \<rparr>)"

definition add_response_callback :: "nat \<Rightarrow> future \<Rightarrow> exn option \<times> future" where
  "add_response_callback cb f =
     (None, f\<lparr> f_response_callbacks := List.insert cb (f_response_callbacks f) \<rparr>)"

definition add_exception_callback :: "nat \<Rightarrow> future \<Rightarrow> exn option \<times> future" where
  "add_exception_callback cb f =
     (None, f\<lparr> f_exception_callbacks := List.insert cb (f_exception_callbacks f) \<rparr>)"

definition add_done_callback :: "nat \<Rightarrow> future \<Rightarrow> exn option \<times> future" where
  "add_done_callback cb f =
     (None, f\<lparr> f_done_callbacks := List.insert cb (f_done_callbacks f) \<rparr>)"

text \<open>The calls another thread can make on a Future.\<close>

datatype fop =
    AddResponse pyval
  | SetException exn
  | SetDone
  | Cancel
  | AddResponseCallback nat
  | AddExceptionCallback nat
  | AddDoneCallback nat

fun apply_fop :: "fop \<Rightarrow> future \<Rightarrow> exn option \<times> future" where
  "apply_fop (AddResponse v) f = add_response v f"
| "apply_fop (SetException e) f = set_exception e f"
| "apply_fop SetDone f = set_done f"
| "apply_fop Cancel f = cancel f"
| "apply_fop (AddResponseCallback cb) f = add_response_callback cb f"
| "apply_fop (AddExceptionCallback cb) f = add_exception_callback cb f"
| "apply_fop (AddDoneCallback cb) f = add_done_callback cb f"

section \<open>Backend dispatch\<close>

text \<open>
  What calling a method of the backend object does: it returns a value, it raises (the
  string is what \<^verbatim>\<open>traceback.format_exc()\<close> gives in the handler), or it returns a
  generator, which yields the listed values and then either ends or raises.
\<close>

datatype behaviour =
    Returns pyval
  | Raises exn string
  | Generator "pyval list" "(exn \<times> string) option"

type_synonym methods = "string \<rightharpoonup> (pyval list \<Rightarrow> (string \<times> pyval) list \<Rightarrow> behaviour)"

text \<open>A method that takes any arguments and always behaves the same way.\<close>

definition const_method :: "behaviour \<Rightarrow> pyval list \<Rightarrow> (string \<times> pyval) list \<Rightarrow> behaviour" where
  "const_method b args kwargs = b"

definition attribute_trace :: string where
  "attribute_trace = ''Traceback (most recent call last): AttributeError''"

text \<open>
  \<^verbatim>\<open>getattr(self, message.method_name)(*message.args, **message.kwargs)\<close>: an object that
  is not a Message has no \<^verbatim>\<open>method_name\<close>, and an unknown name is no attribute; both raise
  AttributeError.
\<close>

definition invoke :: "methods \<Rightarrow> pyval \<Rightarrow> behaviour" where
  "invoke ms message =
     (case message of
        Message name args kwargs \<Rightarrow>
          (case ms name of
             None \<Rightarrow> Raises AttributeError attribute_trace
           | Some m \<Rightarrow> m args kwargs)
      | _ \<Rightarrow> Raises AttributeError attribute_trace)"

text \<open>\<^verbatim>\<open>queue.get(block=False)\<close>: the head of the queue, or the exception Empty (None).\<close>

definition get_nowait :: "pyval list \<Rightarrow> pyval option \<times> pyval list" where
  "get_nowait q = (case q of [] \<Rightarrow> (None, []) | x # xs \<Rightarrow> (Some x, xs))"

text \<open>
  The loop over a generator in \<^verbatim>\<open>_receive\<close>, from the inbound message queue and the values
  the generator yields to the queue left and the values put on the response queue.
  \<open>extra_message\<close> is assigned None and nothing else: the object that
  \<^verbatim>\<open>get(block=False)\<close> returns is dropped, and the bare \<^verbatim>\<open>except\<close> swallows Empty.
\<close>

fun generator_loop :: "pyval list \<Rightarrow> pyval list \<Rightarrow> pyval list \<times> pyval list" where
  "generator_loop mq [] = (mq, [])"
| "generator_loop mq (res # rest) =
     (let extra_message = PNone;
          mq' = snd (get_nowait mq)
      in if extra_message = CANCEL then (mq', [])
         else (fst (generator_loop mq' rest), res # snd (generator_loop mq' rest)))"

text \<open>
  \<^verbatim>\<open>_receive\<close>: the inbound queue left, the objects put on the response queue in order,
  and the exception that leaves the function, if one does (\<^verbatim>\<open>except Exception\<close> does not
  catch an exception that derives from \<^verbatim>\<open>BaseException\<close> only).
\<close>

definition receive :: "methods \<Rightarrow> pyval \<Rightarrow> pyval list \<Rightarrow> pyval list \<times> pyval list \<times> exn option" where
  "receive ms message mq =
     (case invoke ms message of
        Returns response \<Rightarrow> (mq, [response, END], None)
      | Raises e trace \<Rightarrow>
          if is_Exception e then (mq, [TracedError e trace, END], None)
          else (mq, [], Some e)
      | Generator vs fin \<Rightarrow>
          (let mq' = fst (generator_loop mq vs);
               out = snd (generator_loop mq vs)
           in case fin of
                None \<Rightarrow> (mq', out @ [END], None)
              | Some (e, trace) \<Rightarrow>
                  if is_Exception e then (mq', out @ [TracedError e trace, END], None)
                  else (mq', out, Some e)))"

text \<open>
  \<^verbatim>\<open>_backend_loop\<close>, run on the objects that arrive on the message queue: everything it
  puts on the response queue, and the exception that ends the loop, if one does. With the
  queue empty \<^verbatim>\<open>get()\<close> blocks and nothing more is put.
\<close>

function backend_loop :: "methods \<Rightarrow> pyval list \<Rightarrow> pyval list \<times> exn option" where
  "backend_loop ms [] = ([], None)"
| "backend_loop ms (message # mq) =
     (case snd (snd (receive ms message mq)) of
        Some e \<Rightarrow> (fst (snd (receive ms message mq)), Some e)
      | None \<Rightarrow>
          (fst (snd (receive ms message mq)) @ fst (backend_loop ms (fst (receive ms message mq))),
           snd (backend_loop ms (fst (receive ms message mq)))))"
  by pat_completeness auto
termination
proof -
  have shrink: "length (fst (generator_loop q vs)) \<le> length q" for q vs
  proof (induction vs arbitrary: q)
    case Nil
    show ?case by simp
  next
    case (Cons v vs)
    have "length (fst (generator_loop (snd (get_nowait q)) vs)) \<le> length (snd (get_nowait q))"
      by (rule Cons.IH)
    also have "\<dots> \<le> length q"
      by (simp add: get_nowait_def split: list.splits)
    finally show ?case
      by (simp add: CANCEL_def Let_def)
  qed
  have recv: "length (fst (receive ms message mq)) < Suc (length mq)"
    for ms :: methods and message mq
    using shrink [of mq]
    by (auto simp: receive_def Let_def less_Suc_eq_le
        split: behaviour.splits option.splits prod.splits)
  show ?thesis
    by (relation "measure (\<lambda>(ms, mq). length mq)") (simp_all add: recv)
qed

section \<open>Sender thread\<close>

text \<open>
  What reaches the sender thread while it runs: an object read from the response queue,
  or a call of \<^verbatim>\<open>future.cancel()\<close> made by the thread that holds the Future, which takes
  place while the sender thread is blocked in \<^verbatim>\<open>self._response_queue.get()\<close>.
\<close>

datatype event = Recv pyval | UserCancel

datatype status = Exited | Blocked | Crashed exn

datatype pc = LoopHead | QueueGet

text \<open>\<^verbatim>\<open>response.base.__cause__ = Exception(response.trace)\<close>\<close>

definition with_cause :: "exn \<Rightarrow> string \<Rightarrow> exn" where
  "with_cause base trace = Exn (is_Exception base) (exn_text base) (Some trace)"

text \<open>The if/elif chain of the loop body of \<^verbatim>\<open>_send_thread\<close>.\<close>

definition handle_response :: "pyval \<Rightarrow> future \<Rightarrow> exn option \<times> future" where
  "handle_response response f =
     (if response = END then set_done f
      else
        (case response of
           TracedError base trace \<Rightarrow> set_exception (with_cause base trace) f
         | PExc e \<Rightarrow> if is_Exception e then set_exception e f else add_response response f
         | _ \<Rightarrow> add_response response f))"

text \<open>
  The loop of \<^verbatim>\<open>_send_thread\<close>, from the Future, the objects put on the message queue so
  far and the events to come, to the way the thread ends, the Future, the message queue
  and the events not consumed. \<open>Exited\<close>: the loop is left and the lock released.
  \<open>Blocked\<close>: the thread waits in \<^verbatim>\<open>get()\<close> for a response that never comes.
  \<open>Crashed\<close>: an exception left the thread, which still holds the lock.
  The queues are lists here: a \<^verbatim>\<open>put\<close> on a full queue, which waits in the program, is not
  distinguished from one that goes through at once.
\<close>

function send_thread :: "pc \<Rightarrow> future \<Rightarrow> pyval list \<Rightarrow> event list
    \<Rightarrow> status \<times> future \<times> pyval list \<times> event list" where
  "send_thread LoopHead f mq evs =
     (if f_done f then (Exited, f, mq, evs)
      else send_thread QueueGet f (if f_cancelled f then mq @ [CANCEL] else mq) evs)"
| "send_thread QueueGet f mq [] = (Blocked, f, mq, [])"
| "send_thread QueueGet f mq (UserCancel # evs) = send_thread QueueGet (snd (cancel f)) mq evs"
| "send_thread QueueGet f mq (Recv response # evs) =
     (case fst (handle_response response f) of
        Some e \<Rightarrow> (Crashed e, snd (handle_response response f), mq, evs)
      | None \<Rightarrow> send_thread LoopHead (snd (handle_response response f)) mq evs)"
  by pat_completeness auto
termination
  by (relation "measure (\<lambda>(p, f, mq, evs). 2 * length evs + (case p of LoopHead \<Rightarrow> 1 | QueueGet \<Rightarrow> 0))")
    auto

text \<open>
  The proxy that \<^verbatim>\<open>_send(name)\<close> returns, called with \<open>args\<close> and \<open>kwargs\<close>: a fresh
  Future, the Message put on the message queue, then the loop.
\<close>

definition send :: "string \<Rightarrow> pyval list \<Rightarrow> (string \<times> pyval) list \<Rightarrow> event list
    \<Rightarrow> status \<times> future \<times> pyval list \<times> event list" where
  "send name args kwargs evs = send_thread LoopHead Future [Message name args kwargs] evs"

section \<open>Actor construction\<close>

datatype ActorContext = FRONTEND | BACKEND

text \<open>
  An attribute of an actor object as \<^verbatim>\<open>_setup\<close> sees it: an attribute of the class or the
  instance, callable or not, or the proxy that \<^verbatim>\<open>self._send(name)\<close> builds.
\<close>

datatype attr = Attr bool | Proxy string

fun callable :: "attr \<Rightarrow> bool" where
  "callable (Attr c) = c"
| "callable (Proxy name) = True"

definition protected_methods :: "string list" where
  "protected_methods = [''start'', ''close'', ''is_alive'', ''can_use'', ''shared'']"

definition startswith_underscore :: "string \<Rightarrow> bool" where
  "startswith_underscore name = (case name of [] \<Rightarrow> False | c # _ \<Rightarrow> c = CHR ''_'')"

text \<open>The filter of \<^verbatim>\<open>_setup\<close> over \<^verbatim>\<open>dir(self)\<close>, given as the names with their attributes.\<close>

definition proxied :: "string \<times> attr \<Rightarrow> bool" where
  "proxied na = (callable (snd na) \<and> \<not> startswith_underscore (fst na)
      \<and> fst na \<notin> set protected_methods)"

definition actor_setup :: "ActorContext \<Rightarrow> (string \<times> attr) list \<Rightarrow> (string \<times> attr) list" where
  "actor_setup ctx attrs =
     (case ctx of
        FRONTEND \<Rightarrow> map (\<lambda>na. if proxied na then (fst na, Proxy (fst na)) else na) attrs
      | BACKEND \<Rightarrow> attrs)"

text \<open>
  \<^verbatim>\<open>dir(self)\<close> of an instance of the class Actor itself when \<^verbatim>\<open>_setup\<close> runs, without the
  names inherited from \<^verbatim>\<open>object\<close>: \<^verbatim>\<open>process\<close> is only set by \<^verbatim>\<open>start()\<close>.
\<close>

definition Actor_dir :: "(string \<times> attr) list" where
  "Actor_dir =
     [(''__del__'', Attr True), (''__init__'', Attr True),
      (''_backend_loop'', Attr True), (''_load_dependencies'', Attr True),
      (''_lock'', Attr False), (''_message_queue'', Attr False),
      (''_protected_methods'', Attr False), (''_receive'', Attr True),
      (''_response_queue'', Attr False), (''_send'', Attr True), (''_setup'', Attr True),
      (''_shared_instance'', Attr False),
      (''can_use'', Attr True), (''close'', Attr True), (''context'', Attr False),
      (''is_alive'', Attr True), (''shared'', Attr True), (''shared_close'', Attr True),
      (''start'', Attr True)]"

record actor =
  a_id :: nat
  a_class :: string
  a_context :: ActorContext
  a_attrs :: "(string \<times> attr) list"

text \<open>
  The state the constructors work on: for each class that has an entry \<^verbatim>\<open>_shared_instance\<close>
  in its own dictionary the value of the entry (None or an instance), the supply of object
  identities, and the frontends whose worker process was started.
\<close>

record world =
  w_shared_instance :: "string \<rightharpoonup> actor option"
  w_next :: nat
  w_started :: "nat list"

text \<open>
  \<^verbatim>\<open>Actor.__init__\<close> for the class \<open>cls\<close>, whose instances have the attributes \<open>members\<close>.
\<close>

definition actor_init :: "world \<Rightarrow> string \<Rightarrow> (string \<times> attr) list \<Rightarrow> ActorContext \<Rightarrow> actor \<times> world" where
  "actor_init w cls members ctx =
     (let self = \<lparr> a_id = w_next w, a_class = cls, a_context = ctx,
                   a_attrs = actor_setup ctx members \<rparr>
      in (self, w\<lparr> w_shared_instance := (w_shared_instance w)(cls \<mapsto> Some self),
                   w_next := Suc (w_next w) \<rparr>))"

text \<open>
  Reading \<^verbatim>\<open>cls._shared_instance\<close>: the entry of the first class of the method resolution
  order that has one. The base class Actor has the entry None from its class body.
\<close>

fun class_shared_instance :: "(string \<rightharpoonup> actor option) \<Rightarrow> string list \<Rightarrow> actor option" where
  "class_shared_instance slots [] = None"
| "class_shared_instance slots (c # mro) =
     (case slots c of Some v \<Rightarrow> v | None \<Rightarrow> class_shared_instance slots mro)"

text \<open>\<^verbatim>\<open>start()\<close> of a frontend: the worker process is created and started.\<close>

definition start_frontend :: "actor \<Rightarrow> world \<Rightarrow> actor \<times> world" where
  "start_frontend self w = (self, w\<lparr> w_started := w_started w @ [a_id self] \<rparr>)"

text \<open>
  The class method \<^verbatim>\<open>shared()\<close> on the class \<open>cls\<close> with the further classes \<open>bases\<close> in its
  method resolution order: \<^verbatim>\<open>cls._shared_instance or cls(ActorContext.FRONTEND).start()\<close>.
  An actor object is true, as the class defines neither \<^verbatim>\<open>__bool__\<close> nor \<^verbatim>\<open>__len__\<close>.
\<close>

definition shared :: "world \<Rightarrow> string \<Rightarrow> string list \<Rightarrow> (string \<times> attr) list \<Rightarrow> actor \<times> world" where
  "shared w cls bases members =
     (case class_shared_instance (w_shared_instance w) (cls # bases) of
        Some inst \<Rightarrow> (inst, w)
      | None \<Rightarrow>
          start_frontend (fst (actor_init w cls members FRONTEND))
            (snd (actor_init w cls members FRONTEND)))"

section \<open>Calls of other threads\<close>

text \<open>The calls of the other threads, run one after the other on the Future.\<close>

definition run_fops :: "fop list \<Rightarrow> future \<Rightarrow> future" where
  "run_fops ops f = fold (\<lambda>x g. snd (apply_fop x g)) ops f"

text \<open>The calls that run \<^verbatim>\<open>set_done()\<close>: \<^verbatim>\<open>set_done()\<close> itself and \<^verbatim>\<open>cancel()\<close>.\<close>

definition completes :: "fop \<Rightarrow> bool" where
  "completes x = (x = SetDone \<or> x = Cancel)"

section \<open>Future.result, step by step\<close>

text \<open>
  What \<^verbatim>\<open>result()\<close> ends with: it raises, it returns a value, or it returns the list object
  \<^verbatim>\<open>self._responses\<close> itself. The list is not copied: what the caller then holds is what the
  responses of the Future are at the time the caller looks.
\<close>

datatype outcome = Raise exn | Return pyval | ReturnResponses

text \<open>The inner function \<^verbatim>\<open>_response\<close> of \<^verbatim>\<open>result()\<close>: a match on the number of responses.\<close>

definition response_of :: "future \<Rightarrow> outcome" where
  "response_of f =
     (case f_responses f of
        [] \<Rightarrow> Return PNone
      | [v] \<Rightarrow> Return v
      | _ \<Rightarrow> ReturnResponses)"

text \<open>The value the caller holds after \<^verbatim>\<open>result()\<close> ended, read while the Future is \<open>f\<close>.\<close>

definition held :: "outcome \<Rightarrow> future \<Rightarrow> pyval option" where
  "held out f =
     (case out of
        Raise e \<Rightarrow> None
      | Return v \<Rightarrow> Some v
      | ReturnResponses \<Rightarrow> Some (PList (f_responses f)))"

text \<open>
  The Future has no lock, so the statements of \<^verbatim>\<open>result()\<close> interleave with the calls other
  threads make on the same Future. The places of the calling thread in \<^verbatim>\<open>result()\<close>:
  the test of \<^verbatim>\<open>_exception\<close> on entry, the test of \<^verbatim>\<open>done\<close>, the registration of the callback
  \<^verbatim>\<open>_done\<close>, \<^verbatim>\<open>event.wait()\<close>, the test of \<^verbatim>\<open>_exception\<close> after the wait, and
  \<^verbatim>\<open>return _response()\<close>. \<open>Wait n\<close> remembers how many callback invocations had been made
  when the callback was registered: the event is set once the callback \<open>cb\<close> has been
  invoked after that.
\<close>

datatype rpc = TestException | TestDone | Register | Wait nat | TestException2 | Respond

fun result_step :: "nat \<Rightarrow> rpc \<Rightarrow> future \<Rightarrow> (rpc + outcome) \<times> future" where
  "result_step cb TestException f =
     (case f_exception f of Some e \<Rightarrow> (Inr (Raise e), f) | None \<Rightarrow> (Inl TestDone, f))"
| "result_step cb TestDone f = (if f_done f then (Inl Respond, f) else (Inl Register, f))"
| "result_step cb Register f = (Inl (Wait (length (f_calls f))), snd (add_done_callback cb f))"
| "result_step cb (Wait n) f =
     (if DoneCall cb \<in> set (drop n (f_calls f)) then (Inl TestException2, f)
      else (Inl (Wait n), f))"
| "result_step cb TestException2 f =
     (case f_exception f of Some e \<Rightarrow> (Inr (Raise e), f) | None \<Rightarrow> (Inl Respond, f))"
| "result_step cb Respond f = (Inr (response_of f), f)"

text \<open>
  A schedule: at each point either the thread that called \<^verbatim>\<open>result()\<close> runs its next
  statement (which leaves it where it is while it waits for an event that is not set), or
  another thread makes a call on the Future.
\<close>

datatype action = Caller | Other fop

fun run_others :: "action list \<Rightarrow> future \<Rightarrow> future" where
  "run_others [] f = f"
| "run_others (Caller # s) f = run_others s f"
| "run_others (Other x # s) f = run_others s (snd (apply_fop x f))"

text \<open>
  \<^verbatim>\<open>result()\<close> from the place \<open>p\<close> under a schedule: how it ended, or None when it has not
  returned by the end of the schedule, and the Future at the end of the schedule.
\<close>

fun result_run :: "nat \<Rightarrow> rpc \<Rightarrow> future \<Rightarrow> action list \<Rightarrow> outcome option \<times> future" where
  "result_run cb p f [] = (None, f)"
| "result_run cb p f (Other x # s) = result_run cb p (snd (apply_fop x f)) s"
| "result_run cb p f (Caller # s) =
     (case fst (result_step cb p f) of
        Inl p' \<Rightarrow> result_run cb p' (snd (result_step cb p f)) s
      | Inr out \<Rightarrow> (Some out, run_others s (snd (result_step cb p f))))"

text \<open>
  \<^verbatim>\<open>result()\<close>, called with the identity \<open>cb\<close> of its local callback \<^verbatim>\<open>_done\<close>, under a
  schedule.
\<close>

definition result :: "nat \<Rightarrow> future \<Rightarrow> action list \<Rightarrow> outcome option \<times> future" where
  "result cb f s = result_run cb TestException f s"


section \<open>Responses\<close>

text \<open>
  The objects that the loop of \<^verbatim>\<open>_send_thread\<close> hands to \<^verbatim>\<open>add_response\<close>: neither the string
  END, nor a TracedError, nor an instance of \<^verbatim>\<open>Exception\<close>.
\<close>

definition is_response :: "pyval \<Rightarrow> bool" where
  "is_response v =
     (v \<noteq> END \<and> (case v of TracedError base trace \<Rightarrow> False | PExc e \<Rightarrow> \<not> is_Exception e | _ \<Rightarrow> True))"

section \<open>Future.set_done\<close>

text \<open>
  Claim C5. \<^verbatim>\<open>set_done()\<close> on a Future that is done fails its assertion and leaves the
  Future as it is, done included; on a Future that is not done it raises nothing, sets
  done, and invokes every registered done-callback.
\<close>

theorem set_done_once:
  "(f_done f \<longrightarrow> fst (set_done f) = Some AssertionError \<and> snd (set_done f) = f
        \<and> f_done (snd (set_done f)))
   \<and> (\<not> f_done f \<longrightarrow> fst (set_done f) = None \<and> f_done (snd (set_done f))
        \<and> f_calls (snd (set_done f)) = f_calls f @ map DoneCall (f_done_callbacks f))"
  by (simp add: set_done_def)

theorem set_done_once_witness:
  "fst (set_done (snd (add_done_callback 7 Future))) = None
   \<and> f_done (snd (set_done (snd (add_done_callback 7 Future))))
   \<and> f_calls (snd (set_done (snd (add_done_callback 7 Future)))) = [DoneCall 7]
   \<and> fst (set_done (snd (set_done (snd (add_done_callback 7 Future))))) = Some AssertionError
   \<and> f_done (snd (set_done (snd (set_done (snd (add_done_callback 7 Future))))))"
  using set_done_once [of "snd (add_done_callback 7 Future)"]
    set_done_once [of "snd (set_done (snd (add_done_callback 7 Future)))"]
  by (simp add: Future_def add_done_callback_def set_done_def)

section \<open>The shared instance\<close>

text \<open>
  Claim C9. Constructing an actor, in either context, writes the new object into the
  \<^verbatim>\<open>_shared_instance\<close> entry of its class, whatever was there; \<^verbatim>\<open>shared()\<close> then returns
  that object and constructs nothing, so after two constructions it returns the second.
\<close>

theorem init_overwrites_shared_instance:
  "w_shared_instance (snd (actor_init w cls members ctx)) cls = Some (Some (fst (actor_init w cls members ctx)))
   \<and> shared (snd (actor_init w cls members ctx)) cls bases members'
       = (fst (actor_init w cls members ctx), snd (actor_init w cls members ctx))
   \<and> fst (shared (snd (actor_init (snd (actor_init w cls members ctx)) cls members ctx')) cls bases members')
       = fst (actor_init (snd (actor_init w cls members ctx)) cls members ctx')
   \<and> a_id (fst (actor_init (snd (actor_init w cls members ctx)) cls members ctx'))
       \<noteq> a_id (fst (actor_init w cls members ctx))
   \<and> a_context (fst (actor_init w cls members ctx)) = ctx"
  by (simp add: actor_init_def shared_def Let_def)

section \<open>Backend dispatch: exceptions, END and CANCEL\<close>

text \<open>The loop over a generator puts every value it yields, whatever the inbound queue holds.\<close>

lemma generator_loop_snd: "snd (generator_loop mq vs) = vs"
  by (induction vs arbitrary: mq) (simp_all add: CANCEL_def Let_def)

text \<open>
  Each value a generator yields takes one object off the inbound queue, if there is one,
  and the object is dropped.
\<close>

lemma generator_loop_eq: "generator_loop mq vs = (drop (length vs) mq, vs)"
proof (induction vs arbitrary: mq)
  case Nil
  show ?case by simp
next
  case (Cons v vs)
  have "snd (get_nowait mq) = drop 1 mq"
    by (simp add: get_nowait_def drop_Suc split: list.splits)
  then show ?case
    by (simp add: Cons.IH CANCEL_def Let_def drop_Suc tl_drop)
qed

text \<open>
  Claim C2, as stated, fails in two ways. An exception that derives from \<^verbatim>\<open>BaseException\<close>
  only is not caught by \<^verbatim>\<open>except Exception\<close>: a method that raises \<^verbatim>\<open>SystemExit\<close> puts
  neither a TracedError nor END on the response queue, and the loop ends without serving
  the next message. And a generator that yields a value and then raises has its value put
  on the response queue before the TracedError, not the TracedError instead of any result.
\<close>

theorem receive_raise_counterexample:
  "receive [''quit'' \<mapsto> const_method (Raises (Exn False ''SystemExit'' None) ''trace'')]
      (Message ''quit'' [] []) [Message ''quit'' [] []]
     = ([Message ''quit'' [] []], [], Some (Exn False ''SystemExit'' None))
   \<and> backend_loop [''quit'' \<mapsto> const_method (Raises (Exn False ''SystemExit'' None) ''trace'')]
      [Message ''quit'' [] [], Message ''quit'' [] []]
     = ([], Some (Exn False ''SystemExit'' None))
   \<and> receive [''gen'' \<mapsto> const_method (Generator [PInt 1] (Some (Exn True ''ValueError'' None, ''trace'')))]
      (Message ''gen'' [] []) []
     = ([], [PInt 1, TracedError (Exn True ''ValueError'' None) ''trace'', END], None)"
  by (simp add: receive_def invoke_def const_method_def get_nowait_def CANCEL_def Let_def)

text \<open>
  Claim C2, amended. When the invoked method raises an instance of \<^verbatim>\<open>Exception\<close>,
  \<^verbatim>\<open>_receive\<close> puts the TracedError of the exception and its formatted traceback on the
  response queue, as the only object when the call itself raised and after the values
  yielded so far when a generator raised, and END after it. END is the last object put on
  every path on which no exception leaves \<^verbatim>\<open>_receive\<close> (a returned value, a generator that
  ends), and the loop then goes on with the message queue as \<^verbatim>\<open>_receive\<close> left it: that is
  the queue unchanged when the method was no generator, so that the message after one that
  raised is served and ends with its own END. An exception that derives from
  \<^verbatim>\<open>BaseException\<close> only is not caught: no TracedError and no END is put, and the loop ends
  with that exception.
\<close>

theorem receive_traced_error:
  "(invoke ms message = Raises e trace \<and> is_Exception e \<longrightarrow>
      receive ms message mq = (mq, [TracedError e trace, END], None)
      \<and> backend_loop ms (message # mq) =
          (TracedError e trace # END # fst (backend_loop ms mq), snd (backend_loop ms mq)))
   \<and> (invoke ms message = Generator vs (Some (e, trace)) \<and> is_Exception e \<longrightarrow>
      receive ms message mq = (drop (length vs) mq, vs @ [TracedError e trace, END], None)
      \<and> backend_loop ms (message # mq) =
          (vs @ TracedError e trace # END # fst (backend_loop ms (drop (length vs) mq)),
           snd (backend_loop ms (drop (length vs) mq))))
   \<and> (invoke ms message = Raises e trace \<and> \<not> is_Exception e \<longrightarrow>
      receive ms message mq = (mq, [], Some e)
      \<and> backend_loop ms (message # mq) = ([], Some e))
   \<and> (invoke ms message = Generator vs (Some (e, trace)) \<and> \<not> is_Exception e \<longrightarrow>
      receive ms message mq = (drop (length vs) mq, vs, Some e)
      \<and> backend_loop ms (message # mq) = (vs, Some e))
   \<and> (invoke ms message = Returns v \<longrightarrow>
      receive ms message mq = (mq, [v, END], None)
      \<and> backend_loop ms (message # mq) =
          (v # END # fst (backend_loop ms mq), snd (backend_loop ms mq)))
   \<and> (invoke ms message = Generator vs None \<longrightarrow>
      receive ms message mq = (drop (length vs) mq, vs @ [END], None)
      \<and> backend_loop ms (message # mq) =
          (vs @ END # fst (backend_loop ms (drop (length vs) mq)),
           snd (backend_loop ms (drop (length vs) mq))))
   \<and> (snd (snd (receive ms message mq)) = None \<longrightarrow>
      (\<exists>out. fst (snd (receive ms message mq)) = out @ [END]))
   \<and> (invoke ms message = Raises e trace \<and> is_Exception e
        \<and> snd (snd (receive ms next_message mq)) = None \<longrightarrow>
      fst (backend_loop ms (message # next_message # mq)) =
        TracedError e trace # END # fst (snd (receive ms next_message mq))
          @ fst (backend_loop ms (fst (receive ms next_message mq))))"
proof -
  have r: "receive ms message mq =
     (case invoke ms message of
        Returns response \<Rightarrow> (mq, [response, END], None)
      | Raises e trace \<Rightarrow>
          if is_Exception e then (mq, [TracedError e trace, END], None) else (mq, [], Some e)
      | Generator vs fin \<Rightarrow>
          (case fin of
             None \<Rightarrow> (drop (length vs) mq, vs @ [END], None)
           | Some (e, trace) \<Rightarrow>
               if is_Exception e then (drop (length vs) mq, vs @ [TracedError e trace, END], None)
               else (drop (length vs) mq, vs, Some e)))"
    by (simp add: receive_def generator_loop_eq Let_def split: behaviour.splits option.splits)
  have last: "snd (snd (receive ms message mq)) = None \<Longrightarrow>
      \<exists>out. fst (snd (receive ms message mq)) = out @ [END]"
    unfolding r by (auto split: behaviour.splits option.splits if_splits)
  have nxt: "invoke ms message = Raises e trace \<and> is_Exception e
        \<and> snd (snd (receive ms next_message mq)) = None \<Longrightarrow>
      fst (backend_loop ms (message # next_message # mq)) =
        TracedError e trace # END # fst (snd (receive ms next_message mq))
          @ fst (backend_loop ms (fst (receive ms next_message mq)))"
    by (simp add: receive_def)
  show ?thesis
    using last nxt by (simp add: r)
qed

theorem receive_traced_error_witness:
  "receive [''boom'' \<mapsto> const_method (Raises (Exn True ''ValueError'' None) ''trace'')]
      (Message ''boom'' [] []) [] = ([], [TracedError (Exn True ''ValueError'' None) ''trace'', END], None)
   \<and> receive [''gen'' \<mapsto> const_method (Generator [PInt 1] (Some (Exn True ''ValueError'' None, ''trace'')))]
      (Message ''gen'' [] []) [] = ([], [PInt 1, TracedError (Exn True ''ValueError'' None) ''trace'', END], None)
   \<and> receive [''quit'' \<mapsto> const_method (Raises (Exn False ''SystemExit'' None) ''trace'')]
      (Message ''quit'' [] []) [] = ([], [], Some (Exn False ''SystemExit'' None))
   \<and> receive [''stop'' \<mapsto> const_method (Generator [PInt 1] (Some (Exn False ''SystemExit'' None, ''trace'')))]
      (Message ''stop'' [] []) [] = ([], [PInt 1], Some (Exn False ''SystemExit'' None))
   \<and> receive [''add'' \<mapsto> const_method (Returns (PInt 5))]
      (Message ''add'' [PInt 2, PInt 3] []) [] = ([], [PInt 5, END], None)
   \<and> receive [''countdown'' \<mapsto> const_method (Generator [PInt 2, PInt 1] None)]
      (Message ''countdown'' [PInt 2] []) [] = ([], [PInt 2, PInt 1, END], None)
   \<and> backend_loop [''boom'' \<mapsto> const_method (Raises (Exn True ''ValueError'' None) ''trace'')]
      [Message ''boom'' [] [], Message ''boom'' [] []]
     = ([TracedError (Exn True ''ValueError'' None) ''trace'', END,
         TracedError (Exn True ''ValueError'' None) ''trace'', END], None)"
  using receive_traced_error [where ms = "[''boom'' \<mapsto> const_method (Raises (Exn True ''ValueError'' None) ''trace'')]"
      and message = "Message ''boom'' [] []" and e = "Exn True ''ValueError'' None"
      and trace = "''trace''" and mq = "[]" and next_message = "Message ''boom'' [] []"]
    receive_traced_error [where ms = "[''gen'' \<mapsto> const_method (Generator [PInt 1] (Some (Exn True ''ValueError'' None, ''trace'')))]"
      and message = "Message ''gen'' [] []" and e = "Exn True ''ValueError'' None"
      and trace = "''trace''" and vs = "[PInt 1]" and mq = "[]"]
    receive_traced_error [where ms = "[''quit'' \<mapsto> const_method (Raises (Exn False ''SystemExit'' None) ''trace'')]"
      and message = "Message ''quit'' [] []" and e = "Exn False ''SystemExit'' None"
      and trace = "''trace''" and mq = "[]"]
    receive_traced_error [where ms = "[''stop'' \<mapsto> const_method (Generator [PInt 1] (Some (Exn False ''SystemExit'' None, ''trace'')))]"
      and message = "Message ''stop'' [] []" and e = "Exn False ''SystemExit'' None"
      and trace = "''trace''" and vs = "[PInt 1]" and mq = "[]"]
    receive_traced_error [where ms = "[''add'' \<mapsto> const_method (Returns (PInt 5))]"
      and message = "Message ''add'' [PInt 2, PInt 3] []" and v = "PInt 5" and mq = "[]"]
    receive_traced_error [where ms = "[''countdown'' \<mapsto> const_method (Generator [PInt 2, PInt 1] None)]"
      and message = "Message ''countdown'' [PInt 2] []" and vs = "[PInt 2, PInt 1]" and mq = "[]"]
  by (simp add: receive_def invoke_def const_method_def get_nowait_def CANCEL_def Let_def)

text \<open>
  Claim C3 fails on the code. With CANCEL on the inbound queue before the first value of a
  generator, \<^verbatim>\<open>_receive\<close> takes CANCEL off the queue, drops it, and puts every value on the
  response queue: \<open>extra_message\<close> is never assigned what \<^verbatim>\<open>get\<close> returns.
\<close>

theorem receive_ignores_cancel:
  "receive [''countdown'' \<mapsto> (const_method (Generator [PInt 2, PInt 1] None))]
      (Message ''countdown'' [PInt 2] []) [CANCEL]
     = ([], [PInt 2, PInt 1, END], None)"
  by (simp add: receive_def invoke_def const_method_def get_nowait_def CANCEL_def Let_def)

section \<open>Sender thread: cancellation, END and errors\<close>

text \<open>
  While \<^verbatim>\<open>future.cancelled\<close> is False the sender thread puts nothing on the message queue,
  and nothing it or \<^verbatim>\<open>cancel()\<close> does makes it True.
\<close>

lemma send_thread_no_cancel:
  "\<not> f_cancelled f \<Longrightarrow> fst (snd (snd (send_thread p f mq evs))) = mq
     \<and> \<not> f_cancelled (fst (snd (send_thread p f mq evs)))"
proof (induction p f mq evs rule: send_thread.induct)
  case (1 f mq evs)
  then show ?case by simp
next
  case (2 f mq)
  then show ?case by simp
next
  case (3 f mq evs)
  then show ?case by (simp add: cancel_def set_done_def)
next
  case (4 f mq response evs)
  have "\<not> f_cancelled (snd (handle_response response f))"
    using 4 by (auto simp: handle_response_def set_done_def set_exception_def add_response_def
        split: pyval.splits)
  with 4 show ?case by (simp split: option.splits)
qed

text \<open>
  Claim C4 fails on the code. \<^verbatim>\<open>cancel()\<close> writes the attribute \<^verbatim>\<open>_cancelled\<close>; the attribute
  \<^verbatim>\<open>cancelled\<close> that the sender thread reads stays False, and the sender thread puts no
  CANCEL on the message queue, whether \<^verbatim>\<open>cancel()\<close> is called before the first response
  or between two responses.
\<close>

theorem cancel_not_observed:
  "f_cancelled (snd (cancel Future)) = False
   \<and> f_ucancelled (snd (cancel Future)) = True
   \<and> fst (snd (snd (send_thread QueueGet Future [Message ''countdown'' [PInt 2] []]
        [UserCancel, Recv (PInt 2), Recv (PInt 1), Recv END]))) = [Message ''countdown'' [PInt 2] []]
   \<and> fst (snd (snd (send_thread QueueGet Future [Message ''countdown'' [PInt 2] []]
        [Recv (PInt 2), UserCancel, Recv (PInt 1), Recv END]))) = [Message ''countdown'' [PInt 2] []]"
  by (simp add: Future_def cancel_def set_done_def handle_response_def add_response_def END_def)

text \<open>
  Claim C6, as stated, fails: after a TracedError the sender thread does not leave the
  loop. It reads the END that follows, and only then is the Future done.
\<close>

theorem send_thread_error_counterexample:
  "send_thread LoopHead Future [] [Recv (TracedError (Exn True ''boom'' None) ''trace''), Recv END]
     = (Exited, Future\<lparr>f_exception := Some (Exn True ''boom'' (Some ''trace'')), f_done := True\<rparr>,
        [], [])"
  by (simp add: Future_def handle_response_def set_done_def set_exception_def with_cause_def END_def)

text \<open>
  Claim C6, amended. On a Future that is not done, reading END marks the Future done and the
  loop is left. Reading a TracedError sets the exception of the Future to the base
  exception with the trace as its cause, leaves the Future not done, and the loop goes on:
  with END next, the thread reads it, marks the Future done and leaves the loop.
\<close>

theorem send_thread_end_and_error:
  "(\<not> f_done f \<longrightarrow>
      send_thread LoopHead f mq (Recv END # evs)
        = (Exited, snd (set_done f), (if f_cancelled f then mq @ [CANCEL] else mq), evs)
      \<and> f_done (snd (set_done f)))
   \<and> (\<not> f_done f \<longrightarrow>
      send_thread LoopHead f mq (Recv (TracedError base trace) # evs)
        = send_thread LoopHead (f\<lparr>f_exception := Some (with_cause base trace)\<rparr>)
            (if f_cancelled f then mq @ [CANCEL] else mq) evs
      \<and> \<not> f_done (f\<lparr>f_exception := Some (with_cause base trace)\<rparr>))
   \<and> (\<not> f_done f \<longrightarrow>
      fst (send_thread LoopHead f mq (Recv (TracedError base trace) # Recv END # evs)) = Exited
      \<and> fst (snd (send_thread LoopHead f mq (Recv (TracedError base trace) # Recv END # evs)))
          = snd (set_done (f\<lparr>f_exception := Some (with_cause base trace)\<rparr>))
      \<and> snd (snd (snd (send_thread LoopHead f mq (Recv (TracedError base trace) # Recv END # evs)))) = evs)"
  by (simp add: handle_response_def set_done_def set_exception_def END_def)

theorem send_thread_end_and_error_witness:
  "send_thread LoopHead Future [] [Recv END, Recv (PInt 1)]
     = (Exited, Future\<lparr>f_done := True\<rparr>, [], [Recv (PInt 1)])
   \<and> fst (send_thread LoopHead Future []
        [Recv (TracedError (Exn True ''boom'' None) ''trace''), Recv END, Recv (PInt 1)]) = Exited
   \<and> snd (snd (snd (send_thread LoopHead Future []
        [Recv (TracedError (Exn True ''boom'' None) ''trace''), Recv END, Recv (PInt 1)])))
       = [Recv (PInt 1)]"
  using send_thread_end_and_error [where f = Future and mq = "[]" and evs = "[Recv (PInt 1)]"
      and base = "Exn True ''boom'' None" and trace = "''trace''"]
  by (simp add: Future_def set_done_def)

section \<open>Frontend setup\<close>

text \<open>
  Claim C7 fails on the code. \<^verbatim>\<open>_protected_methods\<close> holds start, close, is_alive, can_use
  and shared, and not shared_close: on a frontend \<^verbatim>\<open>_setup\<close> replaces \<^verbatim>\<open>shared_close\<close> by a
  proxy and leaves the other five as they are.
\<close>

theorem setup_proxies_shared_close:
  "map_of (actor_setup FRONTEND Actor_dir) ''shared_close'' = Some (Proxy ''shared_close'')
   \<and> map_of (actor_setup FRONTEND Actor_dir) ''shared'' = Some (Attr True)
   \<and> map_of (actor_setup FRONTEND Actor_dir) ''start'' = Some (Attr True)
   \<and> map_of (actor_setup FRONTEND Actor_dir) ''close'' = Some (Attr True)
   \<and> map_of (actor_setup FRONTEND Actor_dir) ''is_alive'' = Some (Attr True)
   \<and> map_of (actor_setup FRONTEND Actor_dir) ''can_use'' = Some (Attr True)"
  by (simp add: actor_setup_def Actor_dir_def proxied_def protected_methods_def
      startswith_underscore_def)

section \<open>Invariants of a Future\<close>

text \<open>Facts about single calls, then about the whole run of the sender thread.\<close>

lemma handle_response_plain: "is_response v \<Longrightarrow> handle_response v f = add_response v f"
  by (auto simp: is_response_def handle_response_def split: pyval.splits)

lemma apply_fop_done: "f_done f \<Longrightarrow> f_done (snd (apply_fop x f))"
  by (cases x) (simp_all add: add_response_def set_exception_def set_done_def cancel_def
      add_response_callback_def add_exception_callback_def add_done_callback_def)

lemma apply_fop_responses: "\<exists>ys. f_responses (snd (apply_fop x f)) = f_responses f @ ys"
  by (cases x) (simp_all add: add_response_def set_exception_def set_done_def cancel_def
      add_response_callback_def add_exception_callback_def add_done_callback_def)

lemma apply_fop_sets_done: "\<not> f_done f \<Longrightarrow> f_done (snd (apply_fop x f)) \<Longrightarrow> completes x"
  by (cases x) (simp_all add: add_response_def set_exception_def completes_def
      add_response_callback_def add_exception_callback_def add_done_callback_def)

lemma handle_response_done: "f_done f \<Longrightarrow> f_done (snd (handle_response r f))"
  by (auto simp: handle_response_def set_done_def set_exception_def add_response_def
      split: pyval.splits)

lemma handle_response_responses:
  "\<exists>ys. f_responses (snd (handle_response r f)) = f_responses f @ ys"
  by (auto simp: handle_response_def set_done_def set_exception_def add_response_def
      split: pyval.splits)

lemma send_thread_responses:
  "(f_done f \<longrightarrow> f_done (fst (snd (send_thread p f mq evs))))
    \<and> (\<exists>ys. f_responses (fst (snd (send_thread p f mq evs))) = f_responses f @ ys)"
proof (induction p f mq evs rule: send_thread.induct)
  case (1 f mq evs)
  then show ?case by simp
next
  case (2 f mq)
  show ?case by simp
next
  case (3 f mq evs)
  have "f_done f \<Longrightarrow> f_done (snd (cancel f))"
    and "f_responses (snd (cancel f)) = f_responses f"
    by (simp_all add: cancel_def set_done_def)
  with 3 show ?case by simp
next
  case (4 f mq response evs)
  obtain ys where ys: "f_responses (snd (handle_response response f)) = f_responses f @ ys"
    using handle_response_responses by blast
  show ?case
  proof (cases "fst (handle_response response f)")
    case None
    with 4 ys handle_response_done [of f response] show ?thesis by auto
  next
    case (Some e)
    with ys handle_response_done [of f response] show ?thesis by simp
  qed
qed

lemma send_thread_plain:
  "\<forall>v \<in> set vs. is_response v \<Longrightarrow> \<not> f_done f \<Longrightarrow>
    send_thread LoopHead f mq (map Recv vs @ evs)
      = send_thread LoopHead (run_fops (map AddResponse vs) f)
          (if f_cancelled f then mq @ replicate (length vs) CANCEL else mq) evs"
proof (induction vs arbitrary: f mq)
  case Nil
  show ?case by (simp add: run_fops_def)
next
  case (Cons v vs)
  let ?g = "snd (add_response v f)"
  have g: "\<not> f_done ?g" "f_cancelled ?g = f_cancelled f" "fst (add_response v f) = None"
    using Cons.prems by (simp_all add: add_response_def)
  have "send_thread LoopHead f mq (map Recv (v # vs) @ evs)
      = send_thread LoopHead ?g (if f_cancelled f then mq @ [CANCEL] else mq) (map Recv vs @ evs)"
    using Cons.prems g by (simp add: handle_response_plain)
  also have "\<dots> = send_thread LoopHead (run_fops (map AddResponse vs) ?g)
      (if f_cancelled ?g then (if f_cancelled f then mq @ [CANCEL] else mq) @ replicate (length vs) CANCEL
       else (if f_cancelled f then mq @ [CANCEL] else mq)) evs"
    using Cons.prems g by (intro Cons.IH) simp_all
  also have "\<dots> = send_thread LoopHead (run_fops (map AddResponse (v # vs)) f)
      (if f_cancelled f then mq @ replicate (length (v # vs)) CANCEL else mq) evs"
    by (simp add: g run_fops_def replicate_append_same)
  finally show ?case .
qed

lemma run_fops_add_responses:
  "f_responses (run_fops (map AddResponse vs) f) = f_responses f @ vs
   \<and> f_exception (run_fops (map AddResponse vs) f) = f_exception f
   \<and> f_done (run_fops (map AddResponse vs) f) = f_done f"
  by (induction vs arbitrary: f) (simp_all add: run_fops_def add_response_def)

text \<open>
  Claim C8, as stated, fails. A generator that yields an exception object, a value and a
  second exception object makes the sender thread set the exception of the Future twice
  and deliver a response in between, after the exception was set.
\<close>

theorem future_invariants_counterexample:
  "f_exception (fst (snd (send_thread LoopHead Future []
      (map Recv (fst (snd (receive
         [''gen'' \<mapsto> (const_method (Generator
             [PExc (Exn True ''first'' None), PInt 1, PExc (Exn True ''second'' None)] None))]
         (Message ''gen'' [] []) []))))))) = Some (Exn True ''second'' None)
   \<and> f_responses (fst (snd (send_thread LoopHead Future []
      (map Recv (fst (snd (receive
         [''gen'' \<mapsto> (const_method (Generator
             [PExc (Exn True ''first'' None), PInt 1, PExc (Exn True ''second'' None)] None))]
         (Message ''gen'' [] []) []))))))) = [PInt 1]
   \<and> f_exception (fst (snd (send_thread LoopHead Future [] [Recv (PExc (Exn True ''first'' None))])))
       = Some (Exn True ''first'' None)"
  by (simp add: receive_def invoke_def const_method_def get_nowait_def CANCEL_def END_def Let_def Future_def
      handle_response_def set_exception_def add_response_def set_done_def)

text \<open>
  Claim C8, amended. Every call on a Future, and the whole run of the sender thread, leaves
  done true once it is true; done becomes true only by \<^verbatim>\<open>set_done()\<close>, which \<^verbatim>\<open>cancel()\<close> runs
  too; and responses are only appended. The Future does not guard the exception slot:
  \<^verbatim>\<open>set_exception\<close> overwrites it and \<^verbatim>\<open>add_response\<close> appends whether or not it is set. On
  the stream of a call that produces responses, then at most one TracedError, then END, the
  sender thread delivers every response before it sets the exception, sets it once, and
  then marks the Future done; without a TracedError the exception slot is left as it was.
\<close>

theorem future_invariants:
  "(f_done f \<longrightarrow> f_done (snd (apply_fop x f)))
   \<and> (\<not> f_done f \<and> f_done (snd (apply_fop x f)) \<longrightarrow> x = SetDone \<or> x = Cancel)
   \<and> (\<exists>ys. f_responses (snd (apply_fop x f)) = f_responses f @ ys)
   \<and> (f_done f \<longrightarrow> f_done (fst (snd (send_thread p f mq evs))))
   \<and> (\<exists>ys. f_responses (fst (snd (send_thread p f mq evs))) = f_responses f @ ys)
   \<and> f_exception (snd (set_exception e f)) = Some e
   \<and> f_responses (snd (add_response v f)) = f_responses f @ [v]
   \<and> ((\<forall>v \<in> set vs. is_response v) \<and> \<not> f_done f \<longrightarrow>
        fst (snd (send_thread LoopHead f mq (map Recv (vs @ [TracedError base trace, END]))))
          = snd (set_done (snd (set_exception (with_cause base trace)
              (run_fops (map AddResponse vs) f))))
        \<and> fst (snd (send_thread LoopHead f mq (map Recv (vs @ [END]))))
          = snd (set_done (run_fops (map AddResponse vs) f))
        \<and> f_exception (run_fops (map AddResponse vs) f) = f_exception f)"
proof (intro conjI impI)
  show "f_done f \<Longrightarrow> f_done (snd (apply_fop x f))"
    by (rule apply_fop_done)
  show "\<not> f_done f \<and> f_done (snd (apply_fop x f)) \<Longrightarrow> x = SetDone \<or> x = Cancel"
    using apply_fop_sets_done [of f x] by (simp add: completes_def)
  show "\<exists>ys. f_responses (snd (apply_fop x f)) = f_responses f @ ys"
    by (rule apply_fop_responses)
  show "f_done f \<Longrightarrow> f_done (fst (snd (send_thread p f mq evs)))"
    using send_thread_responses [of f p mq evs] by simp
  show "\<exists>ys. f_responses (fst (snd (send_thread p f mq evs))) = f_responses f @ ys"
    using send_thread_responses [of f p mq evs] by simp
  show "f_exception (snd (set_exception e f)) = Some e"
    by (simp add: set_exception_def)
  show "f_responses (snd (add_response v f)) = f_responses f @ [v]"
    by (simp add: add_response_def)
next
  assume a: "(\<forall>v \<in> set vs. is_response v) \<and> \<not> f_done f"
  let ?g = "run_fops (map AddResponse vs) f"
  have g: "\<not> f_done ?g"
    using a by (simp add: run_fops_add_responses)
  show "fst (snd (send_thread LoopHead f mq (map Recv (vs @ [TracedError base trace, END]))))
          = snd (set_done (snd (set_exception (with_cause base trace) ?g)))"
    using a g send_thread_plain [of vs f mq "[Recv (TracedError base trace), Recv END]"]
    by (simp add: handle_response_def END_def set_exception_def set_done_def)
  show "fst (snd (send_thread LoopHead f mq (map Recv (vs @ [END])))) = snd (set_done ?g)"
    using a g send_thread_plain [of vs f mq "[Recv END]"]
    by (simp add: handle_response_def set_done_def)
  show "f_exception ?g = f_exception f"
    by (simp add: run_fops_add_responses)
qed

theorem future_invariants_witness:
  "f_done (snd (apply_fop (AddResponse (PInt 1)) (snd (set_done Future))))
   \<and> f_done (fst (snd (send_thread LoopHead (snd (set_done Future)) [] [Recv (PInt 1)])))
   \<and> f_done (snd (apply_fop Cancel Future))
   \<and> fst (snd (send_thread LoopHead Future []
        (map Recv ([PInt 1, PInt 2] @ [TracedError (Exn True ''boom'' None) ''trace'', END]))))
       = Future\<lparr>f_responses := [PInt 1, PInt 2],
           f_exception := Some (Exn True ''boom'' (Some ''trace'')), f_done := True\<rparr>
   \<and> fst (snd (send_thread LoopHead Future [] (map Recv ([PInt 1, PInt 2] @ [END]))))
       = Future\<lparr>f_responses := [PInt 1, PInt 2], f_done := True\<rparr>"
  using future_invariants [where f = "snd (set_done Future)" and x = "AddResponse (PInt 1)"
      and p = LoopHead and mq = "[]" and evs = "[Recv (PInt 1)]" and vs = "[]"]
    future_invariants [where f = Future and x = Cancel and p = LoopHead and mq = "[]"
      and evs = "[]" and vs = "[PInt 1, PInt 2]" and base = "Exn True ''boom'' None"
      and trace = "''trace''"]
  by (simp add: Future_def set_done_def cancel_def add_response_def set_exception_def
      with_cause_def run_fops_def is_response_def END_def)

section \<open>Future.result under a schedule\<close>



















section \<open>Future.cancel\<close>

text \<open>
  Claim C10, as stated, fails. After \<^verbatim>\<open>cancel()\<close> on a Future whose exception was set by a
  TracedError read before, \<^verbatim>\<open>result()\<close> raises that exception and returns no responses. And
  with two responses \<^verbatim>\<open>result()\<close> returns the responses list itself, which then also holds
  the response added after the \<^verbatim>\<open>cancel()\<close>.
\<close>

theorem cancel_result_counterexample:
  "fst (result 0 (snd (cancel (fst (snd (send_thread LoopHead Future []
        [Recv (TracedError (Exn True ''boom'' None) ''trace'')])))))
      [Caller, Caller, Caller]) = Some (Raise (Exn True ''boom'' (Some ''trace'')))
   \<and> fst (result 0 (snd (cancel (run_fops [AddResponse (PInt 1), AddResponse (PInt 2)] Future)))
      [Caller, Caller, Caller, Other (AddResponse (PInt 3))]) = Some ReturnResponses
   \<and> held ReturnResponses
       (snd (result 0 (snd (cancel (run_fops [AddResponse (PInt 1), AddResponse (PInt 2)] Future)))
          [Caller, Caller, Caller, Other (AddResponse (PInt 3))]))
       = Some (PList [PInt 1, PInt 2, PInt 3])"
  by (simp add: result_def Future_def cancel_def set_done_def handle_response_def
      set_exception_def with_cause_def END_def run_fops_def add_response_def response_of_def
      held_def)

text \<open>
  Claim C10, amended. \<^verbatim>\<open>cancel()\<close> runs \<^verbatim>\<open>set_done()\<close>. On a Future that is not done it raises
  nothing, the Future is done, every registered done-callback is invoked, the responses and
  the exception are as before, and \<^verbatim>\<open>result()\<close> does not wait: it raises the exception when
  one was recorded, and otherwise returns None, the one response, or the responses list of
  the Future itself. The sender thread, blocked in its read when \<^verbatim>\<open>cancel()\<close> ran, still
  appends the next response it reads and then leaves the loop. On a Future that is done
  \<^verbatim>\<open>cancel()\<close> fails the assertion of \<^verbatim>\<open>set_done()\<close>, and so does the sender thread when END
  is what it reads after a \<^verbatim>\<open>cancel()\<close>.
\<close>

theorem cancel_sets_done:
  "(\<not> f_done f \<longrightarrow>
      fst (cancel f) = None \<and> f_done (snd (cancel f))
      \<and> f_calls (snd (cancel f)) = f_calls f @ map DoneCall (f_done_callbacks f)
      \<and> f_responses (snd (cancel f)) = f_responses f
      \<and> f_exception (snd (cancel f)) = f_exception f
      \<and> fst (result cb (snd (cancel f)) (Caller # Caller # Caller # s)) =
          Some (case f_exception f of
                  Some e \<Rightarrow> Raise e
                | None \<Rightarrow>
                    (case f_responses f of
                       [] \<Rightarrow> Return PNone | [v] \<Rightarrow> Return v | v # w # vs \<Rightarrow> ReturnResponses)))
   \<and> (\<not> f_done f \<and> is_response r \<longrightarrow>
        send_thread QueueGet f mq (UserCancel # Recv r # evs)
          = (Exited, snd (add_response r (snd (cancel f))), mq, evs)
        \<and> f_responses (snd (add_response r (snd (cancel f)))) = f_responses f @ [r])
   \<and> (f_done f \<longrightarrow> fst (cancel f) = Some AssertionError)
   \<and> (\<not> f_done f \<longrightarrow>
        fst (send_thread QueueGet f mq (UserCancel # Recv END # evs)) = Crashed AssertionError)"
proof (intro conjI impI)
  assume a: "\<not> f_done f"
  then show "fst (cancel f) = None" "f_done (snd (cancel f))"
    "f_calls (snd (cancel f)) = f_calls f @ map DoneCall (f_done_callbacks f)"
    "f_responses (snd (cancel f)) = f_responses f"
    "f_exception (snd (cancel f)) = f_exception f"
    by (simp_all add: cancel_def set_done_def)
  then show "fst (result cb (snd (cancel f)) (Caller # Caller # Caller # s)) =
          Some (case f_exception f of
                  Some e \<Rightarrow> Raise e
                | None \<Rightarrow>
                    (case f_responses f of
                       [] \<Rightarrow> Return PNone | [v] \<Rightarrow> Return v | v # w # vs \<Rightarrow> ReturnResponses))"
    by (simp add: result_def response_of_def split: option.splits list.splits)
  show "fst (send_thread QueueGet f mq (UserCancel # Recv END # evs)) = Crashed AssertionError"
    using a by (simp add: cancel_def set_done_def handle_response_def)
next
  assume a: "\<not> f_done f \<and> is_response r"
  then have h: "handle_response r (snd (cancel f)) = add_response r (snd (cancel f))"
    by (simp add: handle_response_plain)
  have c: "f_done (snd (cancel f))"
    by (simp add: cancel_def set_done_def)
  have ar: "fst (add_response r (snd (cancel f))) = None"
    and ad: "f_done (snd (add_response r (snd (cancel f))))"
    using c by (simp_all add: add_response_def)
  have "send_thread QueueGet f mq (UserCancel # Recv r # evs)
      = send_thread QueueGet (snd (cancel f)) mq (Recv r # evs)"
    by simp
  also have "\<dots> = send_thread LoopHead (snd (add_response r (snd (cancel f)))) mq evs"
    by (simp only: send_thread.simps h ar option.case)
  also have "\<dots> = (Exited, snd (add_response r (snd (cancel f))), mq, evs)"
    by (simp only: send_thread.simps(1) ad if_True)
  finally show "send_thread QueueGet f mq (UserCancel # Recv r # evs)
          = (Exited, snd (add_response r (snd (cancel f))), mq, evs)" .
  show "f_responses (snd (add_response r (snd (cancel f)))) = f_responses f @ [r]"
    using a by (simp add: add_response_def cancel_def set_done_def)
next
  assume "f_done f"
  then show "fst (cancel f) = Some AssertionError"
    by (simp add: cancel_def set_done_def)
qed

theorem cancel_sets_done_witness:
  "fst (cancel (snd (add_response (PInt 4) (snd (add_done_callback 7 Future))))) = None
   \<and> f_calls (snd (cancel (snd (add_response (PInt 4) (snd (add_done_callback 7 Future)))))) = [DoneCall 7]
   \<and> fst (result 0 (snd (cancel (snd (add_response (PInt 4) (snd (add_done_callback 7 Future))))))
        [Caller, Caller, Caller]) = Some (Return (PInt 4))
   \<and> fst (result 0 (snd (cancel (snd (set_exception AssertionError Future)))) [Caller, Caller, Caller])
       = Some (Raise AssertionError)
   \<and> fst (send_thread QueueGet Future [] [UserCancel, Recv (PInt 1), Recv END]) = Exited
   \<and> f_responses (fst (snd (send_thread QueueGet Future [] [UserCancel, Recv (PInt 1), Recv END])))
       = [PInt 1]
   \<and> fst (cancel (snd (cancel Future))) = Some AssertionError
   \<and> fst (send_thread QueueGet Future [] [UserCancel, Recv END]) = Crashed AssertionError"
  using cancel_sets_done [where f = "snd (add_response (PInt 4) (snd (add_done_callback 7 Future)))"
      and cb = 0 and s = "[]" and mq = "[]" and evs = "[]" and r = "PInt 1"]
    cancel_sets_done [where f = "snd (set_exception AssertionError Future)"
      and cb = 0 and s = "[]" and mq = "[]" and evs = "[]" and r = "PInt 1"]
    cancel_sets_done [where f = Future and cb = 0 and s = "[]" and mq = "[]"
      and evs = "[Recv END]" and r = "PInt 1"]
    cancel_sets_done [where f = "snd (cancel Future)" and cb = 0 and s = "[]" and mq = "[]"
      and evs = "[]" and r = "PInt 1"]
    cancel_sets_done [where f = Future and cb = 0 and s = "[]" and mq = "[]"
      and evs = "[]" and r = "PInt 1"]
  by (simp add: Future_def add_done_callback_def add_response_def set_exception_def cancel_def
      set_done_def is_response_def END_def AssertionError_def)

end
